theory Spec2Isabelle
  imports Complex_Main
begin

section \<open>Trajectory tables of post_process.py\<close>

text \<open>
  The program works on pandas DataFrames. A trajectory table is a frame indexed by
  the column \<open>traj\<close> (a non-unique index: one index entry per sample) with the columns
  \<open>t\<close>, \<open>x\<close> and \<open>y\<close>. It is modelled as the list of its rows, in the frame's row order.

  Numbers: the float64 values of the program are idealised as real numbers. The special
  values a computation of the program can produce (NaN, the infinities) are written out
  where the program produces them, in the type \<open>fval\<close> of the derived columns.
\<close>

record sample =
  traj :: int
  t :: real
  x :: real
  y :: real

text \<open>
  The exceptions the functions can raise. Python's \<open>assert\<close> raises AssertionError
  without a message; the model keeps which assert statement failed (the traceback's line).
\<close>

datatype assert_site =
    Trim_sum_lt_min_length  \<comment> \<open>line 138: \<open>assert trim_start_frames + trim_end_frames < min_length\<close>\<close>
  | Len_index_gt_0          \<comment> \<open>line 295: \<open>assert len(ddf.index) > 0\<close>\<close>
  | Not_has_duplicates      \<comment> \<open>line 296: \<open>assert not ddf.index.has_duplicates\<close>\<close>

datatype error = AssertionError assert_site | ValueError | TypeError | KeyError | IndexError

subsection \<open>Frame operations used by the program\<close>

text \<open>\<open>index.unique()\<close>: the labels in the order of their first appearance.\<close>

fun unique :: "'a list \<Rightarrow> 'a list" where
  "unique [] = []"
| "unique (l # ls) = l # unique (filter (\<lambda>k. k \<noteq> l) ls)"

text \<open>\<open>df.loc[i]\<close> for a label \<open>i\<close> that occurs several times: the rows with that label.\<close>

definition loc :: "sample list \<Rightarrow> int \<Rightarrow> sample list" where
  "loc df i = filter (\<lambda>r. traj r = i) df"

text \<open>
  \<open>len(df.loc[i])\<close>. When the label occurs once, \<open>df.loc[i]\<close> is not a frame of one row
  but a Series holding that row's values, one entry per column, and \<open>len\<close> counts the
  columns \<open>t\<close>, \<open>x\<close>, \<open>y\<close>.
\<close>

definition len_loc :: "sample list \<Rightarrow> int \<Rightarrow> int" where
  "len_loc df i = (if length (loc df i) = 1 then 3 else int (length (loc df i)))"

text \<open>\<open>df.loc[idxs]\<close> for a list of labels: the rows of each label, in the list's order.\<close>

definition loc_list :: "sample list \<Rightarrow> int list \<Rightarrow> sample list" where
  "loc_list df idxs = concat (map (loc df) idxs)"

text \<open>Python slices \<open>rows[a:b]\<close> and \<open>rows[a:]\<close>: a negative bound counts from the end, and
  every bound is clamped to the length.\<close>

definition slice_index :: "nat \<Rightarrow> int \<Rightarrow> nat" where
  "slice_index n i = (if i < 0 then nat (max (int n + i) 0) else min (nat i) n)"

definition py_slice :: "'a list \<Rightarrow> int \<Rightarrow> int \<Rightarrow> 'a list" where
  "py_slice rows a b =
     take (slice_index (length rows) b - slice_index (length rows) a)
       (drop (slice_index (length rows) a) rows)"

definition py_slice_from :: "'a list \<Rightarrow> int \<Rightarrow> 'a list" where
  "py_slice_from rows a = drop (slice_index (length rows) a) rows"

subsection \<open>filter_traj (lines 122-166)\<close>

text \<open>
  What a call of \<open>filter_traj\<close> gives: a table, an exception, or (third case) a frame
  that is not a table of samples. The third case is the trimming branch meeting a
  trajectory of one row: \<open>df1.loc[i]\<close> is then a Series of that row's three values, the
  slice cuts columns instead of rows, and \<open>pd.concat\<close> joins it to the rest without
  raising.
\<close>

datatype filter_result = Filtered "sample list" | Raised error | ColumnSliced

definition remove_zeroes :: "sample list \<Rightarrow> sample list" where
  \<comment> \<open>line 140: \<open>df.loc[np.bitwise_and(df.x > 0., df.y > 0.)]\<close>\<close>
  "remove_zeroes df = filter (\<lambda>r. x r > 0 \<and> y r > 0) df"

definition good_length_idxs :: "sample list \<Rightarrow> int \<Rightarrow> int list" where
  \<comment> \<open>lines 143-146\<close>
  "good_length_idxs df1 min_length =
     filter (\<lambda>i. len_loc df1 i \<ge> min_length) (unique (map traj df1))"

definition concat_trimmed :: "sample list \<Rightarrow> (sample list \<Rightarrow> sample list) \<Rightarrow> filter_result" where
  \<comment> \<open>\<open>pd.concat([trim(df1.loc[i]) for i in df1.index.unique()])\<close>; \<open>pd.concat\<close> of an
      empty list raises ValueError\<close>
  "concat_trimmed df1 trim =
     (let idxs = unique (map traj df1) in
      if idxs = [] then Raised ValueError
      else if \<exists>i \<in> set idxs. length (loc df1 i) = 1 then ColumnSliced
      else Filtered (concat (map (\<lambda>i. trim (loc df1 i)) idxs)))"

definition filter_traj :: "sample list \<Rightarrow> int \<Rightarrow> int \<Rightarrow> int \<Rightarrow> filter_result" where
  "filter_traj df min_length trim_start_frames trim_end_frames =
     (if \<not> (trim_start_frames + trim_end_frames < min_length)
      then Raised (AssertionError Trim_sum_lt_min_length)
      else
        let df1 = remove_zeroes df;
            df1 = loc_list df1 (good_length_idxs df1 min_length)
        in if trim_end_frames > 0
           then concat_trimmed df1 (\<lambda>rows. py_slice rows trim_start_frames (- trim_end_frames))
           else if trim_start_frames > 0
           then concat_trimmed df1 (\<lambda>rows. py_slice_from rows trim_start_frames)
           else Filtered df1)"

subsection \<open>calculate_distances (lines 281-306)\<close>

text \<open>
  \<open>dft\<close> is the table re-indexed by \<open>t\<close> and sorted by it; its index holds floats
  (line 109 adds a float to every \<open>t\<close>). Line 293 takes the index of
  \<open>dft[1:].loc[dft.index[1:] == dft.index[:-1]]\<close>:
  \<^item> \<open>dft[1:]\<close> slices the frame by the labels of its float index, not by position: it is
    the part of the sorted frame from the label 1 on, the rows with \<open>t \<ge> 1\<close>;
  \<^item> \<open>dft.index[1:] == dft.index[:-1]\<close> slices the index itself, by position: entry \<open>k\<close>
    says whether the rows \<open>k + 1\<close> and \<open>k\<close> of \<open>dft\<close> have the same \<open>t\<close>, and there is one
    entry less than \<open>dft\<close> has rows;
  \<^item> \<open>.loc\<close> with a boolean mask takes the rows whose entry is true, and raises
    IndexError when the mask has not the length of the frame (pandas checks the length
    of a boolean indexer).
  So line 293 raises unless exactly one row of the table has \<open>t < 1\<close> (or the table has no
  row). The result of the function is the frame \<open>ddf\<close>: its index and its column \<open>d\<close>,
  modelled as a list of pairs \<open>(t, d)\<close>.

  pandas sorts the index with an unstable sort, so the order of two rows of equal \<open>t\<close> is
  not fixed by the source; the model sorts stably. The value of \<open>d\<close> is the same for both
  orders of a pair, since it squares the difference.
\<close>

definition loc_mask :: "bool list \<Rightarrow> 'a list \<Rightarrow> error + 'a list" where
  \<comment> \<open>\<open>frame.loc[mask]\<close> for a boolean array\<close>
  "loc_mask key rows =
     (if length key \<noteq> length rows then Inl IndexError
      else Inr (map snd (filter fst (zip key rows))))"

definition two_bee_times :: "sample list \<Rightarrow> error + real list" where
  \<comment> \<open>line 293: \<open>dft[1:].loc[dft.index[1:] == dft.index[:-1]].index\<close>\<close>
  "two_bee_times dft =
     (case loc_mask (map2 (\<lambda>r p. t r = t p) (tl dft) (butlast dft))
             (filter (\<lambda>r. 1 \<le> t r) dft) of
        Inl e \<Rightarrow> Inl e
      | Inr rows \<Rightarrow> Inr (map t rows))"

definition loc_t :: "sample list \<Rightarrow> real list \<Rightarrow> sample list" where
  \<comment> \<open>line 298: \<open>dft.loc[ddf.index]\<close>, the rows of each label in the order of the labels\<close>
  "loc_t dft idx = concat (map (\<lambda>k. filter (\<lambda>r. t r = k) dft) idx)"

fun iloc_even :: "'a list \<Rightarrow> 'a list" where
  \<comment> \<open>\<open>iloc[::2]\<close>\<close>
  "iloc_even [] = []"
| "iloc_even [r] = [r]"
| "iloc_even (r # p # rs) = r # iloc_even rs"

fun iloc_odd :: "'a list \<Rightarrow> 'a list" where
  \<comment> \<open>\<open>iloc[1::2]\<close>\<close>
  "iloc_odd [] = []"
| "iloc_odd [r] = []"
| "iloc_odd (r # p # rs) = p # iloc_odd rs"

definition euclid :: "sample \<Rightarrow> sample \<Rightarrow> real" where
  \<comment> \<open>lines 301-303, one row of the arrays\<close>
  "euclid p r = sqrt ((x p - x r)\<^sup>2 + (y p - y r)\<^sup>2)"

definition calculate_distances :: "sample list \<Rightarrow> error + (real \<times> real) list" where
  "calculate_distances df =
     (let dft = sort_key t df
      in case two_bee_times dft of
           Inl e \<Rightarrow> Inl e
         | Inr idx \<Rightarrow>
             if \<not> length idx > 0 then Inl (AssertionError Len_index_gt_0)
             else if \<not> distinct idx then Inl (AssertionError Not_has_duplicates)
             else
               let dft = loc_t dft idx;
                   d = map2 euclid (iloc_odd dft) (iloc_even dft)
               in if length d \<noteq> length idx then Inl ValueError
                  else Inr (zip idx d))"

subsection \<open>calculate_velocity (lines 248-278)\<close>

text \<open>
  The derived columns hold float64 values: a real number, NaN, or an infinity (a nonzero
  value divided by a time difference of zero).
\<close>

datatype fval = NaN | PInf | NInf | Fin real

text \<open>\<open>np.arctan2(b, a)\<close> on real arguments; the result lies in \<open>(-\<pi>, \<pi>]\<close>. The
  differences of the program are never the negative zero, so \<open>arctan2 0 a = \<pi>\<close> for
  negative \<open>a\<close> and \<open>arctan2 0 0 = 0\<close>.\<close>

definition arctan2 :: "real \<Rightarrow> real \<Rightarrow> real" where
  "arctan2 b a =
     (if a > 0 then arctan (b / a)
      else if a < 0 then (if b \<ge> 0 then arctan (b / a) + pi else arctan (b / a) - pi)
      else if b > 0 then pi / 2
      else if b < 0 then - (pi / 2)
      else 0)"

text \<open>Division of a column value by a time difference, as float64 division does it:
  NaN stays NaN, and a division by zero gives an infinity, or NaN for \<open>0 / 0\<close>.\<close>

definition fdiv :: "fval \<Rightarrow> real \<Rightarrow> fval" where
  "fdiv a d =
     (case a of
        NaN \<Rightarrow> NaN
      | Fin r \<Rightarrow> if d \<noteq> 0 then Fin (r / d)
                 else if r > 0 then PInf else if r < 0 then NInf else NaN
      | PInf \<Rightarrow> if d < 0 then NInf else PInf
      | NInf \<Rightarrow> if d < 0 then PInf else NInf)"

text \<open>\<open>np.mod(a, b)\<close>: the remainder with the sign of the divisor.\<close>

definition np_mod :: "real \<Rightarrow> real \<Rightarrow> real" where
  "np_mod a b = a - b * of_int \<lfloor>a / b\<rfloor>"

text \<open>Lines 271-272 for one entry: the difference of two angles modulo \<open>2\<pi>\<close>, less \<open>2\<pi>\<close>
  when it exceeds \<open>\<pi>\<close>. A NaN angle gives NaN (and so would an infinite one).\<close>

definition rot_of :: "fval \<Rightarrow> fval \<Rightarrow> fval" where
  "rot_of a b =
     (case (a, b) of
        (Fin u, Fin v) \<Rightarrow>
          (let r = np_mod (u - v) (2 * pi) in Fin (if r > pi then r - 2 * pi else r))
      | _ \<Rightarrow> NaN)"

definition pos_diff :: "sample list \<Rightarrow> (real \<times> real) list" where
  \<comment> \<open>line 258: \<open>df[['x', 'y']][1:].values - df[['x', 'y']][:-1].values\<close>\<close>
  "pos_diff df = map2 (\<lambda>r p. (x r - x p, y r - y p)) (tl df) (butlast df)"

definition t_diff :: "sample list \<Rightarrow> real list" where
  \<comment> \<open>line 263: \<open>df.t[1:].values - df.t[:-1].values\<close>\<close>
  "t_diff df = map2 (\<lambda>r p. t r - t p) (tl df) (butlast df)"

definition angle_values :: "sample list \<Rightarrow> fval list" where
  \<comment> \<open>lines 259-260\<close>
  "angle_values df = NaN # map (\<lambda>(dx, dy). Fin (arctan2 dy dx)) (pos_diff df)"

definition speed_values :: "sample list \<Rightarrow> fval list" where
  \<comment> \<open>lines 266-268\<close>
  "speed_values df =
     NaN # map2 (\<lambda>(dx, dy) dt. fdiv (Fin (sqrt (dx\<^sup>2 + dy\<^sup>2))) dt) (pos_diff df) (t_diff df)"

definition rotation_values :: "sample list \<Rightarrow> fval list" where
  \<comment> \<open>lines 271-273; \<open>df.angle\<close> is the column assigned in line 259\<close>
  "rotation_values df =
     NaN # map2 fdiv (map2 rot_of (tl (angle_values df)) (butlast (angle_values df))) (t_diff df)"

text \<open>
  The frame after the call, with its three new columns. The columns \<open>t\<close>, \<open>x\<close>, \<open>y\<close> of
  its rows are \<open>fval\<close>s because of one case: on a frame without rows, the assignment
  \<open>df['angle'] = \<dots>\<close> of an array of length one makes pandas build the index from the
  array (\<open>DataFrame._ensure_valid_index\<close>), and the frame gains a row with the label 0
  whose \<open>t\<close>, \<open>x\<close> and \<open>y\<close> are NaN.
\<close>

record krow =
  ktraj :: int
  kt :: fval
  kx :: fval
  ky :: fval
  angle :: fval
  speed :: fval
  rotation :: fval

definition missing_row :: krow where
  "missing_row = \<lparr>ktraj = 0, kt = NaN, kx = NaN, ky = NaN, angle = NaN, speed = NaN, rotation = NaN\<rparr>"

definition with_columns :: "sample list \<Rightarrow> fval list \<Rightarrow> fval list \<Rightarrow> fval list \<Rightarrow> krow list" where
  "with_columns df angles speeds rotations =
     map (\<lambda>(r, a, s, ro). \<lparr>ktraj = traj r, kt = Fin (t r), kx = Fin (x r), ky = Fin (y r),
                            angle = a, speed = s, rotation = ro\<rparr>)
       (zip df (zip angles (zip speeds rotations)))"

text \<open>
  Lines 276-277: \<open>df.loc[i].iloc[0][['angle', 'speed', 'rotation']] = np.nan\<close> for every
  label \<open>i\<close>. The assignment goes to the object that \<open>df.loc[i].iloc[0]\<close> returns.
  \<^item> For a label of one row, \<open>df.loc[i]\<close> is a Series and \<open>.iloc[0]\<close> its first value, a
    float: the item assignment raises TypeError.
  \<^item> Otherwise the object is a Series for the first row of the label. Whether writing to
    it changes \<open>df\<close> depends on whether pandas handed out views of the frame's memory or
    copies, which the source does not fix (it depends on the dtypes of the columns, on
    the index being sorted and on the version of pandas). The parameter
    \<open>writes_through\<close> says which: with it the first row of the label is set to NaN,
    without it the frame stays as it is.
\<close>

fun reset_first :: "int \<Rightarrow> krow list \<Rightarrow> krow list" where
  "reset_first i [] = []"
| "reset_first i (r # rs) =
     (if ktraj r = i then r\<lparr>angle := NaN, speed := NaN, rotation := NaN\<rparr> # rs
      else r # reset_first i rs)"

fun remove_between :: "bool \<Rightarrow> int list \<Rightarrow> krow list \<Rightarrow> krow list \<times> error option" where
  "remove_between writes_through [] df = (df, None)"
| "remove_between writes_through (i # idxs) df =
     (if length (filter (\<lambda>r. ktraj r = i) df) = 1 then (df, Some TypeError)
      else remove_between writes_through idxs (if writes_through then reset_first i df else df))"

text \<open>The result: the frame \<open>df\<close> as the call leaves it, and the exception raised, if any
  (\<open>None\<close>: the call returned, and what it returns is Python's \<open>None\<close>). The parameter
  \<open>in_place\<close> of the source is never read.\<close>

definition calculate_velocity :: "bool \<Rightarrow> sample list \<Rightarrow> krow list \<times> error option" where
  "calculate_velocity writes_through df =
     (let frame = (if df = [] then [missing_row]
                   else with_columns df (angle_values df) (speed_values df) (rotation_values df))
      in remove_between writes_through (unique (map ktraj frame)) frame)"

subsection \<open>combine_traj_files (lines 84-119)\<close>

text \<open>
  A file is given by what the loop reads from it: the time in its name (\<open>dtime\<close>, in
  seconds) and the table \<open>parse_traj_file\<close> returns for it. \<open>adjusted\<close> is the list
  \<open>df_list\<close>. \<open>int(df_current['traj'].max())\<close> of line 113 raises ValueError on a table
  without rows (the maximum is NaN), and so does \<open>pd.concat\<close> of an empty list.

  The column \<open>traj\<close> holds 64-bit integers, and line 111 adds the offset into it. The
  model adds as the integers do as long as the ids, the offset and the sums are 64-bit
  values. Otherwise the column wraps around or turns into floats without an exception;
  that table is not modelled, and the outcome is \<open>Id_overflow\<close>.
\<close>

definition in_int64 :: "int \<Rightarrow> bool" where
  "in_int64 v \<longleftrightarrow> - (2 ^ 63) \<le> v \<and> v < 2 ^ 63"

datatype 'a stitch_result = Stitched 'a | Stitch_raised error | Id_overflow

definition adjust :: "real \<Rightarrow> int \<Rightarrow> sample \<Rightarrow> sample" where
  \<comment> \<open>lines 109 and 111, one row\<close>
  "adjust elapsed offset r = r\<lparr>t := t r + elapsed, traj := traj r + offset\<rparr>"

fun adjusted ::
  "real option \<Rightarrow> int \<Rightarrow> (real \<times> sample list) list \<Rightarrow> sample list list stitch_result" where
  "adjusted first_time traj_max [] = Stitched []"
| "adjusted first_time traj_max ((dtime, df_current) # files) =
     (let first_time = (case first_time of None \<Rightarrow> dtime | Some ft \<Rightarrow> ft);
          offset = traj_max + 1
      in if \<not> (in_int64 offset \<and>
                 (\<forall>r \<in> set df_current. in_int64 (traj r) \<and> in_int64 (traj r + offset)))
         then Id_overflow
         else if df_current = [] then Stitch_raised ValueError
         else
           let df_current = map (adjust (dtime - first_time) offset) df_current
           in case adjusted (Some first_time) (Max (set (map traj df_current))) files of
                Stitched df_list \<Rightarrow> Stitched (df_current # df_list)
              | Stitch_raised e \<Rightarrow> Stitch_raised e
              | Id_overflow \<Rightarrow> Id_overflow)"

definition combine_traj_files :: "(real \<times> sample list) list \<Rightarrow> sample list stitch_result" where
  "combine_traj_files files =
     (case adjusted None (- 1) files of
        Stitched df_list \<Rightarrow>
          if df_list = [] then Stitch_raised ValueError else Stitched (concat df_list)
      | Stitch_raised e \<Rightarrow> Stitch_raised e
      | Id_overflow \<Rightarrow> Id_overflow)"

subsection \<open>process_trajectories (lines 309-348)\<close>

text \<open>
  The catalog \<open>files\<close> is modelled by what the loops read of it: the conditions
  (\<open>files.index.levels[0]\<close>), the dates (\<open>files.index.levels[1]\<close>) and, for a pair of
  both, the files of that group as \<open>combine_traj_files\<close> reads them; \<open>files.loc[c, d]\<close>
  raises KeyError for a pair without files, and so does \<open>cond_beenum[c]\<close> for a condition
  that is not 1, 2, 3 or 4. Writing a csv file is modelled by appending it to the list
  of the files written so far.
\<close>

datatype 'd csv_file =
    Distance_csv int 'd "(real \<times> real) list"
  | Trajectory_csv int 'd "krow list"

text \<open>How a group, or the batch, ends. \<open>Unmodelled\<close>: \<open>filter_traj\<close> gave a frame that is
  not a table of samples, or the stitching left the 64-bit range of the ids, and what
  the program computes from there is not modelled.\<close>

datatype ending = Finished | Aborted error | Unmodelled

definition cond_beenum :: "int \<rightharpoonup> nat" where
  "cond_beenum = [1 \<mapsto> 1, 2 \<mapsto> 2, 3 \<mapsto> 2, 4 \<mapsto> 4]"

definition process_group ::
  "bool \<Rightarrow> int \<Rightarrow> int \<Rightarrow> int \<Rightarrow> (int \<times> 'd \<rightharpoonup> (real \<times> sample list) list) \<Rightarrow> int \<Rightarrow> 'd \<Rightarrow>
     'd csv_file list \<Rightarrow> 'd csv_file list \<times> ending" where
  \<comment> \<open>lines 331-345, one pass of the inner loop\<close>
  "process_group writes_through min_length trim_start_frames trim_end_frames files c d written =
     (case files (c, d) of
        None \<Rightarrow> (written, Aborted KeyError)
      | Some group_files \<Rightarrow>
     (case cond_beenum c of
        None \<Rightarrow> (written, Aborted KeyError)
      | Some n \<Rightarrow>
     (case combine_traj_files group_files of
        Stitch_raised e \<Rightarrow> (written, Aborted e)
      | Id_overflow \<Rightarrow> (written, Unmodelled)
      | Stitched df \<Rightarrow>
     (case filter_traj df min_length trim_start_frames trim_end_frames of
        Raised e \<Rightarrow> (written, Aborted e)
      | ColumnSliced \<Rightarrow> (written, Unmodelled)
      | Filtered df \<Rightarrow>
     (case (if n = 2
            then (case calculate_distances df of
                    Inl e \<Rightarrow> Inl e
                  | Inr ddf \<Rightarrow> Inr (written @ [Distance_csv c d ddf]))
            else Inr written) of
        Inl e \<Rightarrow> (written, Aborted e)
      | Inr written \<Rightarrow>
     (case calculate_velocity writes_through df of
        (frame, Some e) \<Rightarrow> (written, Aborted e)
      | (frame, None) \<Rightarrow> (written @ [Trajectory_csv c d frame], Finished)))))))"

fun run_groups ::
  "bool \<Rightarrow> int \<Rightarrow> int \<Rightarrow> int \<Rightarrow> (int \<times> 'd \<rightharpoonup> (real \<times> sample list) list) \<Rightarrow> (int \<times> 'd) list \<Rightarrow>
     'd csv_file list \<Rightarrow> 'd csv_file list \<times> ending" where
  \<comment> \<open>the two nested loops; an exception leaves them\<close>
  "run_groups writes_through min_length trim_start_frames trim_end_frames files [] written = (written, Finished)"
| "run_groups writes_through min_length trim_start_frames trim_end_frames files ((c, d) # groups) written =
     (case process_group writes_through min_length trim_start_frames trim_end_frames files c d written of
        (written, Finished) \<Rightarrow> run_groups writes_through min_length trim_start_frames trim_end_frames files groups written
      | (written, ending) \<Rightarrow> (written, ending))"

definition process_trajectories ::
  "bool \<Rightarrow> int \<Rightarrow> int \<Rightarrow> int \<Rightarrow> int list \<Rightarrow> 'd list \<Rightarrow> (int \<times> 'd \<rightharpoonup> (real \<times> sample list) list) \<Rightarrow>
     'd csv_file list \<times> ending" where
  "process_trajectories writes_through min_length trim_start_frames trim_end_frames conditions dates files =
     run_groups writes_through min_length trim_start_frames trim_end_frames files (List.product conditions dates) []"

subsection \<open>Auxiliary notions of the statements\<close>

text \<open>
  The \<open>id_ceiling\<close> of the stitching, in the words of the specification: the maximum
  trajectory id, after the offset, of all previous recordings, and -1 when there is none.
\<close>

definition id_ceiling :: "sample list list \<Rightarrow> int" where
  "id_ceiling previous =
     (if concat previous = [] then - 1 else Max (traj ` set (concat previous)))"

text \<open>What a row of the frame holds apart from the derived columns.\<close>

definition base_of :: "krow \<Rightarrow> int \<times> fval \<times> fval \<times> fval" where
  "base_of r = (ktraj r, kt r, kx r, ky r)"

text \<open>
  A catalog of two groups of condition 2 (two bees), one file each, keyed by the dates 0
  and 1. In the group of date 0 the two trajectories have no timestamp in common; in the
  group of date 1 the second bee is seen from \<open>t = 1\<close> on and shares the timestamps 1 and 2
  with the first. Both tables have one sample before \<open>t = 1\<close>.
\<close>

definition example_files :: "int \<times> nat \<rightharpoonup> (real \<times> sample list) list" where
  "example_files =
     [(2, 0) \<mapsto> [(0, [\<lparr>traj = 0, t = 0, x = 1, y = 1\<rparr>, \<lparr>traj = 0, t = 1, x = 2, y = 1\<rparr>,
                      \<lparr>traj = 1, t = 2, x = 3, y = 1\<rparr>, \<lparr>traj = 1, t = 3, x = 3, y = 2\<rparr>])],
      (2, 1) \<mapsto> [(0, [\<lparr>traj = 0, t = 0, x = 1, y = 1\<rparr>, \<lparr>traj = 0, t = 1, x = 2, y = 1\<rparr>,
                      \<lparr>traj = 0, t = 2, x = 3, y = 1\<rparr>, \<lparr>traj = 1, t = 1, x = 2, y = 2\<rparr>,
                      \<lparr>traj = 1, t = 2, x = 3, y = 2\<rparr>])]]"

section \<open>The filter's precondition\<close>

text \<open>
  Claim C6. For every table, \<open>filter_traj\<close> fails with the assertion of line 138 whenever
  \<open>trim_start_frames + trim_end_frames \<ge> min_length\<close>. The assertion is the first statement
  of the function: the result does not depend on the table, no sample is removed and no
  trajectory is looked at. In particular the parameters 2, 2 and 3 fail.
\<close>

theorem filter_traj_precondition:
  "trim_start_frames + trim_end_frames \<ge> min_length \<Longrightarrow>
     filter_traj df min_length trim_start_frames trim_end_frames =
       Raised (AssertionError Trim_sum_lt_min_length)"
  by (simp add: filter_traj_def)

theorem filter_traj_precondition_witness:
  "(2::int) + 2 \<ge> 3 \<and>
   filter_traj [\<lparr>traj = 0, t = 0, x = 1, y = 1\<rparr>] 3 2 2 =
     Raised (AssertionError Trim_sum_lt_min_length)"
  using filter_traj_precondition [of 3 2 2 "[\<lparr>traj = 0, t = 0, x = 1, y = 1\<rparr>]"]
  by simp

section \<open>Pair separation\<close>

lemma sqrt_9: "sqrt 9 = 3"
  using real_sqrt_abs [of 3] by simp

lemma sqrt_16: "sqrt 16 = 4"
  using real_sqrt_abs [of 4] by simp

text \<open>
  Line 293 raises whenever the rows with \<open>t \<ge> 1\<close> are not all rows but one: the mask has
  one entry less than the table has rows, and the frame it is applied to has the rows
  with \<open>t \<ge> 1\<close>.
\<close>

lemma calculate_distances_line_293:
  assumes "length (filter (\<lambda>r. 1 \<le> t r) df) \<noteq> length df - 1"
  shows "calculate_distances df = Inl IndexError"
proof -
  have "length (filter (\<lambda>r. 1 \<le> t r) (sort_key t df)) = length (filter (\<lambda>r. 1 \<le> t r) df)"
    by (simp add: filter_sort)
  with assms show ?thesis
    by (simp add: calculate_distances_def two_bee_times_def loc_mask_def)
qed

text \<open>
  Claim C4 says that for two trajectories with a shared timestamp the computation
  returns the table of the distances at the shared timestamps, with the example of
  entity A at (0,0), (1,0), (2,0) and entity B at (0,3), (1,3), (2,4) over \<open>t = 0, 1, 2\<close>.
  On that table line 293 raises: \<open>dft\<close> has six rows, the mask five entries, and
  \<open>dft[1:]\<close>, the rows with \<open>t \<ge> 1\<close>, has four rows. No table is returned. The distances
  that lines 301-303 compute for the three pairs of the example are 3, 3 and 4.
\<close>

theorem calculate_distances_example_raises:
  "calculate_distances
     [\<lparr>traj = 0, t = 0, x = 0, y = 0\<rparr>, \<lparr>traj = 0, t = 1, x = 1, y = 0\<rparr>,
      \<lparr>traj = 0, t = 2, x = 2, y = 0\<rparr>, \<lparr>traj = 1, t = 0, x = 0, y = 3\<rparr>,
      \<lparr>traj = 1, t = 1, x = 1, y = 3\<rparr>, \<lparr>traj = 1, t = 2, x = 2, y = 4\<rparr>] =
   Inl IndexError \<and>
   euclid \<lparr>traj = 1, t = 0, x = 0, y = 3\<rparr> \<lparr>traj = 0, t = 0, x = 0, y = 0\<rparr> = 3 \<and>
   euclid \<lparr>traj = 1, t = 1, x = 1, y = 3\<rparr> \<lparr>traj = 0, t = 1, x = 1, y = 0\<rparr> = 3 \<and>
   euclid \<lparr>traj = 1, t = 2, x = 2, y = 4\<rparr> \<lparr>traj = 0, t = 2, x = 2, y = 0\<rparr> = 4"
  by (simp add: calculate_distances_line_293 euclid_def sqrt_9 sqrt_16)

text \<open>
  Claim C5 says that the computation fails, with the assertion of line 295, exactly when
  no timestamp is shared by two samples. It fails before that assertion, at line 293,
  on a table of two samples that share the timestamp 0, where a distance is to be
  returned, and on a table of two samples with the timestamps 0 and 1/2, where the
  failure is to be the assertion. In both tables two rows have \<open>t < 1\<close>.
\<close>

theorem calculate_distances_fails_before_assertion:
  "calculate_distances [\<lparr>traj = 0, t = 0, x = 1, y = 1\<rparr>, \<lparr>traj = 1, t = 0, x = 2, y = 2\<rparr>] =
     Inl IndexError \<and>
   calculate_distances [\<lparr>traj = 0, t = 0, x = 1, y = 1\<rparr>, \<lparr>traj = 1, t = 1 / 2, x = 2, y = 2\<rparr>] =
     Inl IndexError"
  by (simp add: calculate_distances_line_293)

section \<open>The filter's length check\<close>

lemmas filter_traj_defs = filter_traj_def remove_zeroes_def good_length_idxs_def len_loc_def
  loc_def loc_list_def

text \<open>
  Claim C3 says that every trajectory in the filter's output has at least
  \<open>min_length - trim_start_frames - trim_end_frames\<close> samples. The program does not do
  that for a trajectory of one sample: \<open>len(df1.loc[i])\<close> is then the length of a Series,
  3, the number of columns. With \<open>min_length = 3\<close> and no trimming, a table with a
  trajectory of three samples and a trajectory of one sample is returned as it is: the
  trajectory 1 is retained with one sample.
\<close>

theorem filter_traj_keeps_single_sample:
  "filter_traj
     [\<lparr>traj = 0, t = 0, x = 1, y = 1\<rparr>, \<lparr>traj = 0, t = 1, x = 2, y = 1\<rparr>,
      \<lparr>traj = 0, t = 2, x = 3, y = 1\<rparr>, \<lparr>traj = 1, t = 0, x = 5, y = 5\<rparr>] 3 0 0 =
   Filtered
     [\<lparr>traj = 0, t = 0, x = 1, y = 1\<rparr>, \<lparr>traj = 0, t = 1, x = 2, y = 1\<rparr>,
      \<lparr>traj = 0, t = 2, x = 3, y = 1\<rparr>, \<lparr>traj = 1, t = 0, x = 5, y = 5\<rparr>] \<and>
   length (loc [\<lparr>traj = 0, t = 0, x = 1, y = 1\<rparr>, \<lparr>traj = 0, t = 1, x = 2, y = 1\<rparr>,
      \<lparr>traj = 0, t = 2, x = 3, y = 1\<rparr>, \<lparr>traj = 1, t = 0, x = 5, y = 5\<rparr>] 1) = 1"
  by (simp add: filter_traj_defs)

text \<open>
  Claim C7 says that the minimum-length check is applied to the number of samples that
  remain after the samples with \<open>x \<le> 0\<close> or \<open>y \<le> 0\<close> are dropped. The samples are dropped
  first (line 140), but for one remaining sample the check sees 3 (the length of a
  Series), not 1: a trajectory of two samples, one of them at (0,0), passes
  \<open>min_length = 2\<close> with one sample. The example of the claim (five samples, one at (0,0),
  \<open>min_length = 3\<close>) is retained with four samples, as the claim says.
\<close>

theorem filter_traj_counts_columns:
  "filter_traj [\<lparr>traj = 0, t = 0, x = 0, y = 0\<rparr>, \<lparr>traj = 0, t = 1, x = 5, y = 5\<rparr>] 2 0 0 =
     Filtered [\<lparr>traj = 0, t = 1, x = 5, y = 5\<rparr>] \<and>
   length (remove_zeroes [\<lparr>traj = 0, t = 0, x = 0, y = 0\<rparr>, \<lparr>traj = 0, t = 1, x = 5, y = 5\<rparr>]) = 1 \<and>
   filter_traj
     [\<lparr>traj = 0, t = 0, x = 1, y = 1\<rparr>, \<lparr>traj = 0, t = 1, x = 0, y = 0\<rparr>,
      \<lparr>traj = 0, t = 2, x = 3, y = 1\<rparr>, \<lparr>traj = 0, t = 3, x = 4, y = 1\<rparr>,
      \<lparr>traj = 0, t = 4, x = 5, y = 1\<rparr>] 3 0 0 =
   Filtered
     [\<lparr>traj = 0, t = 0, x = 1, y = 1\<rparr>, \<lparr>traj = 0, t = 2, x = 3, y = 1\<rparr>,
      \<lparr>traj = 0, t = 3, x = 4, y = 1\<rparr>, \<lparr>traj = 0, t = 4, x = 5, y = 1\<rparr>]"
  by (simp add: filter_traj_defs)

section \<open>Stitching\<close>

lemma adjusted_first:
  "files \<noteq> [] \<Longrightarrow> adjusted None m files = adjusted (Some (fst (hd files))) m files"
  by (cases files) (auto simp: Let_def)

lemma traj_adjust: "traj (adjust e off r) = traj r + off"
  by (simp add: adjust_def)

lemma adjusted_Some:
  assumes "adjusted (Some ft) m files = Stitched df_list"
    and "\<forall>f \<in> set files. \<forall>r \<in> set (snd f). 0 \<le> traj r"
  shows "length df_list = length files \<and>
     (\<forall>k < length files. df_list ! k =
        map (adjust (fst (files ! k) - ft)
              ((if concat (take k df_list) = [] then m
                else Max (traj ` set (concat (take k df_list)))) + 1))
          (snd (files ! k))) \<and>
     (\<forall>k < length files. \<forall>r \<in> set (df_list ! k). m < traj r) \<and>
     (\<forall>j k. j < k \<and> k < length files \<longrightarrow>
        (\<forall>r \<in> set (df_list ! j). \<forall>s \<in> set (df_list ! k). traj r < traj s))"
  using assms
proof (induction files arbitrary: m df_list)
  case Nil
  then show ?case by simp
next
  case (Cons f fs)
  obtain dt df where f: "f = (dt, df)" by (cases f)
  define cur where "cur = map (adjust (dt - ft) (m + 1)) df"
  define m' where "m' = Max (set (map traj cur))"
  from Cons.prems(2) f have nonneg: "\<forall>r \<in> set df. 0 \<le> traj r"
    and rest: "\<forall>f \<in> set fs. \<forall>r \<in> set (snd f). 0 \<le> traj r" by auto
  have eq: "adjusted (Some ft) m (f # fs) =
      (if \<not> (in_int64 (m + 1) \<and>
               (\<forall>r \<in> set df. in_int64 (traj r) \<and> in_int64 (traj r + (m + 1))))
       then Id_overflow
       else if df = [] then Stitch_raised ValueError
       else case adjusted (Some ft) m' fs of
              Stitched tl_list \<Rightarrow> Stitched (cur # tl_list)
            | Stitch_raised e \<Rightarrow> Stitch_raised e
            | Id_overflow \<Rightarrow> Id_overflow)"
    unfolding f cur_def m'_def by (simp only: adjusted.simps Let_def option.case)
  from Cons.prems(1) have dfne: "df \<noteq> []"
    unfolding eq by (auto split: if_splits)
  from Cons.prems(1) obtain tl_list where
    run: "adjusted (Some ft) m' fs = Stitched tl_list" and dl: "df_list = cur # tl_list"
    unfolding eq by (auto split: if_splits stitch_result.splits)
  from Cons.IH [OF run rest] have len: "length tl_list = length fs"
    and shape: "\<forall>k < length fs. tl_list ! k =
        map (adjust (fst (fs ! k) - ft)
              ((if concat (take k tl_list) = [] then m'
                else Max (traj ` set (concat (take k tl_list)))) + 1))
          (snd (fs ! k))"
    and above: "\<forall>k < length fs. \<forall>r \<in> set (tl_list ! k). m' < traj r"
    and order: "\<forall>j k. j < k \<and> k < length fs \<longrightarrow>
        (\<forall>r \<in> set (tl_list ! j). \<forall>s \<in> set (tl_list ! k). traj r < traj s)"
    by blast+
  have curne: "cur \<noteq> []" using dfne by (simp add: cur_def)
  have cur_above: "\<forall>r \<in> set cur. m < traj r" using nonneg by (auto simp: cur_def traj_adjust)
  have cur_le: "\<forall>r \<in> set cur. traj r \<le> m'" by (simp add: m'_def)
  have m_lt: "m < m'"
  proof -
    obtain r where "r \<in> set cur" using curne by (cases cur) auto
    then have "m < traj r" "traj r \<le> m'" using cur_above cur_le by blast+
    then show ?thesis by (rule less_le_trans)
  qed
  have ceil: "\<And>k. k < length fs \<Longrightarrow>
      (if concat (take (Suc k) (cur # tl_list)) = [] then m
       else Max (traj ` set (concat (take (Suc k) (cur # tl_list))))) =
      (if concat (take k tl_list) = [] then m'
       else Max (traj ` set (concat (take k tl_list))))"
  proof -
    fix k assume k: "k < length fs"
    let ?B = "traj ` set (concat (take k tl_list))"
    have Babove: "\<forall>b \<in> ?B. m' < b"
    proof
      fix b assume "b \<in> ?B"
      then obtain l r where l: "l \<in> set (take k tl_list)" and r: "r \<in> set l" and b: "b = traj r"
        by auto
      from l obtain j where j: "j < k" "l = tl_list ! j"
        using k len by (auto simp: in_set_conv_nth)
      then have "j < length fs" using k by simp
      then have "\<forall>r \<in> set (tl_list ! j). m' < traj r" using above by blast
      then show "m' < b" using r b j by blast
    qed
    show "(if concat (take (Suc k) (cur # tl_list)) = [] then m
       else Max (traj ` set (concat (take (Suc k) (cur # tl_list))))) =
      (if concat (take k tl_list) = [] then m'
       else Max (traj ` set (concat (take k tl_list))))"
    proof (cases "concat (take k tl_list) = []")
      case True
      have "concat (take (Suc k) (cur # tl_list)) = cur @ concat (take k tl_list)" by simp
      then have "concat (take (Suc k) (cur # tl_list)) = cur" by (simp only: True append_Nil2)
      then show ?thesis using curne True by (simp only: m'_def set_map if_True if_False) simp
    next
      case False
      then have Bne: "?B \<noteq> {}" by auto
      have fin: "finite ?B" "finite (traj ` set cur)" by simp_all
      have Ane: "traj ` set cur \<noteq> {}" using curne by simp
      have "Max (traj ` set cur \<union> ?B) = max (Max (traj ` set cur)) (Max ?B)"
        by (rule Max_Un [OF fin(2) Ane fin(1) Bne])
      moreover have "Max (traj ` set cur) < Max ?B"
      proof -
        have "Max ?B \<in> ?B" by (rule Max_in [OF fin(1) Bne])
        then have "m' < Max ?B" using Babove by blast
        then show ?thesis by (simp only: m'_def set_map)
      qed
      ultimately have "Max (traj ` set cur \<union> ?B) = Max ?B" by simp
      moreover have "concat (take (Suc k) (cur # tl_list)) = cur @ concat (take k tl_list)" by simp
      moreover have "cur @ concat (take k tl_list) \<noteq> []" using curne by simp
      ultimately show ?thesis using False by (simp only: set_append image_Un if_False)
    qed
  qed
  have shape': "\<forall>k < length (f # fs). (cur # tl_list) ! k =
        map (adjust (fst ((f # fs) ! k) - ft)
              ((if concat (take k (cur # tl_list)) = [] then m
                else Max (traj ` set (concat (take k (cur # tl_list))))) + 1))
          (snd ((f # fs) ! k))"
  proof (intro allI impI)
    fix k assume "k < length (f # fs)"
    show "(cur # tl_list) ! k =
        map (adjust (fst ((f # fs) ! k) - ft)
              ((if concat (take k (cur # tl_list)) = [] then m
                else Max (traj ` set (concat (take k (cur # tl_list))))) + 1))
          (snd ((f # fs) ! k))"
    proof (cases k)
      case 0
      then show ?thesis by (simp add: f cur_def)
    next
      case (Suc k')
      with \<open>k < length (f # fs)\<close> have k': "k' < length fs" by simp
      show ?thesis
        unfolding Suc ceil [OF k'] using shape k' by simp
    qed
  qed
  have above': "\<forall>k < length (f # fs). \<forall>r \<in> set ((cur # tl_list) ! k). m < traj r"
  proof (intro allI impI)
    fix k assume "k < length (f # fs)"
    show "\<forall>r \<in> set ((cur # tl_list) ! k). m < traj r"
    proof (cases k)
      case 0
      then show ?thesis using cur_above by simp
    next
      case (Suc k')
      with \<open>k < length (f # fs)\<close> have "k' < length fs" by simp
      then have "\<forall>r \<in> set (tl_list ! k'). m' < traj r" using above by blast
      then show ?thesis using m_lt Suc by auto
    qed
  qed
  have order': "\<forall>j k. j < k \<and> k < length (f # fs) \<longrightarrow>
        (\<forall>r \<in> set ((cur # tl_list) ! j). \<forall>s \<in> set ((cur # tl_list) ! k). traj r < traj s)"
  proof (intro allI impI)
    fix j k assume jk: "j < k \<and> k < length (f # fs)"
    then obtain k' where k: "k = Suc k'" and k': "k' < length fs" by (cases k) auto
    show "\<forall>r \<in> set ((cur # tl_list) ! j). \<forall>s \<in> set ((cur # tl_list) ! k). traj r < traj s"
    proof (cases j)
      case 0
      have "\<forall>s \<in> set (tl_list ! k'). m' < traj s" using above k' by blast
      then show ?thesis using cur_le 0 k by force
    next
      case (Suc j')
      with jk k have "j' < k' \<and> k' < length fs" by simp
      then show ?thesis using order Suc k by simp
    qed
  qed
  show ?case
    unfolding dl using len shape' above' order' by simp
qed

text \<open>
  Claim C2 is stated for every sequence of tables. The offset of a recording is the
  maximum id of the recording before it plus one, which separates the ids only when the
  ids of the files are not negative: a second file whose only id is -1 gets the offset 1
  and its trajectory the id 0, the id of the first file's trajectory.
\<close>

theorem combine_traj_files_collision:
  "\<exists>df_list.
     adjusted None (- 1)
       [(0, [\<lparr>traj = 0, t = 0, x = 1, y = 1\<rparr>]), (3600, [\<lparr>traj = - 1, t = 0, x = 2, y = 2\<rparr>])] =
       Stitched df_list \<and>
     combine_traj_files
       [(0, [\<lparr>traj = 0, t = 0, x = 1, y = 1\<rparr>]), (3600, [\<lparr>traj = - 1, t = 0, x = 2, y = 2\<rparr>])] =
       Stitched [\<lparr>traj = 0, t = 0, x = 1, y = 1\<rparr>, \<lparr>traj = 0, t = 3600, x = 2, y = 2\<rparr>] \<and>
     (\<exists>r \<in> set (df_list ! 0). \<exists>s \<in> set (df_list ! 1). traj r = traj s)"
  by (simp add: combine_traj_files_def adjust_def in_int64_def)

text \<open>
  At the end of the 64-bit range the sum of line 111 is not the sum of the integers; the
  model gives no table there.
\<close>

lemma combine_traj_files_int64:
  "combine_traj_files
     [(0, [\<lparr>traj = 2 ^ 63 - 1, t = 0, x = 1, y = 1\<rparr>]), (3600, [\<lparr>traj = 0, t = 0, x = 2, y = 2\<rparr>])] =
   Id_overflow"
  by (simp add: combine_traj_files_def adjust_def in_int64_def)

text \<open>
  Claim C2, amended. Let \<open>combine_traj_files\<close> stitch the tables of a group into one
  table, no file having a negative trajectory id, and the ids staying 64-bit integers
  (the model returns a table in that case only). Then the table is the concatenation of
  the adjusted tables \<open>df_list\<close>, one per file, where in the table of file \<open>k\<close> every time is
  the original time plus the start time of file \<open>k\<close> minus that of the first file, every
  trajectory id is the original id plus \<open>id_ceiling + 1\<close>, the ceiling being the maximum
  id of all tables before it (-1 for the first), and \<open>x\<close> and \<open>y\<close> are as in the file.
  Every id of a later table is strictly greater than every id of an earlier one, so no
  id occurs in two tables.
\<close>

theorem combine_traj_files_stitch:
  assumes "combine_traj_files files = Stitched df"
    and "\<forall>f \<in> set files. \<forall>r \<in> set (snd f). 0 \<le> traj r"
  shows "\<exists>df_list. adjusted None (- 1) files = Stitched df_list \<and> df = concat df_list \<and>
     length df_list = length files \<and>
     (\<forall>k < length files. df_list ! k =
        map (\<lambda>r. r\<lparr>t := t r + (fst (files ! k) - fst (files ! 0)),
                    traj := traj r + (id_ceiling (take k df_list) + 1)\<rparr>)
          (snd (files ! k))) \<and>
     (\<forall>j k. j < k \<and> k < length files \<longrightarrow>
        (\<forall>r \<in> set (df_list ! j). \<forall>s \<in> set (df_list ! k). traj r < traj s))"
proof -
  from assms(1) obtain df_list where run: "adjusted None (- 1) files = Stitched df_list"
    and ne: "df_list \<noteq> []" and df: "df = concat df_list"
    by (auto simp: combine_traj_files_def split: stitch_result.splits if_splits)
  have files: "files \<noteq> []" using run ne by (cases files) auto
  then have hd: "fst (hd files) = fst (files ! 0)" by (simp add: hd_conv_nth)
  have run': "adjusted (Some (fst (files ! 0))) (- 1) files = Stitched df_list"
    using adjusted_first [OF files, of "- 1"] run hd by simp
  from adjusted_Some [OF run' assms(2)] have len: "length df_list = length files"
    and shape: "\<forall>k < length files. df_list ! k =
        map (adjust (fst (files ! k) - fst (files ! 0))
              ((if concat (take k df_list) = [] then - 1
                else Max (traj ` set (concat (take k df_list)))) + 1))
          (snd (files ! k))"
    and order: "\<forall>j k. j < k \<and> k < length files \<longrightarrow>
        (\<forall>r \<in> set (df_list ! j). \<forall>s \<in> set (df_list ! k). traj r < traj s)"
    by blast+
  have adj: "\<And>e off. adjust e off = (\<lambda>r. r\<lparr>t := t r + e, traj := traj r + off\<rparr>)"
    by (rule ext) (simp add: adjust_def)
  have shape': "\<forall>k < length files. df_list ! k =
        map (\<lambda>r. r\<lparr>t := t r + (fst (files ! k) - fst (files ! 0)),
                    traj := traj r + (id_ceiling (take k df_list) + 1)\<rparr>)
          (snd (files ! k))"
    using shape by (simp only: id_ceiling_def adj)
  show ?thesis
  proof (intro exI conjI)
    show "adjusted None (- 1) files = Stitched df_list" by (rule run)
    show "df = concat df_list" by (rule df)
    show "length df_list = length files" by (rule len)
    show "\<forall>k < length files. df_list ! k =
        map (\<lambda>r. r\<lparr>t := t r + (fst (files ! k) - fst (files ! 0)),
                    traj := traj r + (id_ceiling (take k df_list) + 1)\<rparr>)
          (snd (files ! k))" by (rule shape')
    show "\<forall>j k. j < k \<and> k < length files \<longrightarrow>
        (\<forall>r \<in> set (df_list ! j). \<forall>s \<in> set (df_list ! k). traj r < traj s)" by (rule order)
  qed
qed

theorem combine_traj_files_stitch_witness:
  "combine_traj_files
     [(0, [\<lparr>traj = 0, t = 1 / 2, x = 1, y = 1\<rparr>]), (3600, [\<lparr>traj = 0, t = 1 / 4, x = 2, y = 2\<rparr>])] =
   Stitched [\<lparr>traj = 0, t = 1 / 2, x = 1, y = 1\<rparr>, \<lparr>traj = 1, t = 3600 + 1 / 4, x = 2, y = 2\<rparr>] \<and>
   (\<exists>df_list. adjusted None (- 1)
       [(0, [\<lparr>traj = 0, t = 1 / 2, x = 1, y = 1\<rparr>]), (3600, [\<lparr>traj = 0, t = 1 / 4, x = 2, y = 2\<rparr>])] =
         Stitched df_list \<and> length df_list = 2 \<and>
      df_list ! 1 = [\<lparr>traj = 1, t = 3600 + 1 / 4, x = 2, y = 2\<rparr>] \<and>
      (\<forall>r \<in> set (df_list ! 0). \<forall>s \<in> set (df_list ! 1). traj r < traj s))"
proof -
  let ?files = "[(0::real, [\<lparr>traj = 0, t = 1 / 2, x = 1, y = 1\<rparr>]),
    (3600, [\<lparr>traj = 0, t = 1 / 4, x = 2, y = 2\<rparr>])]"
  have c: "combine_traj_files ?files =
     Stitched [\<lparr>traj = 0, t = 1 / 2, x = 1, y = 1\<rparr>, \<lparr>traj = 1, t = 3600 + 1 / 4, x = 2, y = 2\<rparr>]"
    by (simp add: combine_traj_files_def adjust_def in_int64_def)
  have h2: "\<forall>f \<in> set ?files. \<forall>r \<in> set (snd f). 0 \<le> traj r" by simp
  from combine_traj_files_stitch [OF c h2] obtain df_list where
    run: "adjusted None (- 1) ?files = Stitched df_list" and len: "length df_list = length ?files"
    and order: "\<forall>j k. j < k \<and> k < length ?files \<longrightarrow>
        (\<forall>r \<in> set (df_list ! j). \<forall>s \<in> set (df_list ! k). traj r < traj s)"
    by blast
  have o: "\<forall>r \<in> set (df_list ! 0). \<forall>s \<in> set (df_list ! 1). traj r < traj s"
    using order [rule_format, of 0 1] by simp
  have l: "length df_list = 2" using len by simp
  have "adjusted None (- 1) ?files =
      Stitched [[\<lparr>traj = 0, t = 1 / 2, x = 1, y = 1\<rparr>], [\<lparr>traj = 1, t = 3600 + 1 / 4, x = 2, y = 2\<rparr>]]"
    by (simp add: adjust_def in_int64_def)
  with run have e: "df_list ! 1 = [\<lparr>traj = 1, t = 3600 + 1 / 4, x = 2, y = 2\<rparr>]" by simp
  from run l e o have "\<exists>df_list. adjusted None (- 1) ?files = Stitched df_list \<and> length df_list = 2 \<and>
      df_list ! 1 = [\<lparr>traj = 1, t = 3600 + 1 / 4, x = 2, y = 2\<rparr>] \<and>
      (\<forall>r \<in> set (df_list ! 0). \<forall>s \<in> set (df_list ! 1). traj r < traj s)"
    by (intro exI [of _ df_list] conjI)
  with c show ?thesis by (rule conjI)
qed

section \<open>Kinematics\<close>

lemma np_mod_small: "0 \<le> a \<Longrightarrow> a < b \<Longrightarrow> np_mod a b = a"
proof -
  assume a: "0 \<le> a" "a < b"
  then have "\<lfloor>a / b\<rfloor> = 0" by (simp add: floor_eq_iff)
  then show ?thesis by (simp add: np_mod_def)
qed

lemma rot_of_quarter: "rot_of (Fin (pi / 2)) (Fin 0) = Fin (pi / 2)"
proof -
  have h: "np_mod (pi / 2) (2 * pi) = pi / 2" by (rule np_mod_small) simp_all
  show ?thesis by (simp add: rot_of_def Let_def h)
qed

lemma rot_of_zero: "rot_of (Fin 0) (Fin 0) = Fin 0"
proof -
  have h: "np_mod 0 (2 * pi) = 0" by (rule np_mod_small) simp_all
  show ?thesis by (simp add: rot_of_def Let_def h)
qed

lemma rot_of_half: "rot_of (Fin (pi / 2)) (Fin (- (pi / 2))) = Fin pi"
proof -
  have h: "np_mod pi (2 * pi) = pi" by (rule np_mod_small) simp_all
  show ?thesis by (simp add: rot_of_def Let_def h)
qed

lemma rot_of_NaN: "rot_of a NaN = NaN" "rot_of NaN b = NaN"
  by (simp_all add: rot_of_def split: fval.splits)

lemmas velocity_defs = Let_def rot_of_NaN calculate_velocity_def with_columns_def angle_values_def speed_values_def
  rotation_values_def pos_diff_def t_diff_def arctan2_def fdiv_def

lemma length_pos_diff: "length (pos_diff df) = length df - 1"
  by (simp add: pos_diff_def)

lemma length_t_diff: "length (t_diff df) = length df - 1"
  by (simp add: t_diff_def)

lemma length_angle_values: "df \<noteq> [] \<Longrightarrow> length (angle_values df) = length df"
  by (cases df) (simp_all add: angle_values_def length_pos_diff)

lemma length_speed_values: "df \<noteq> [] \<Longrightarrow> length (speed_values df) = length df"
  by (cases df) (simp_all add: speed_values_def length_pos_diff length_t_diff)

lemma length_rotation_values: "df \<noteq> [] \<Longrightarrow> length (rotation_values df) = length df"
  by (cases df) (simp_all add: rotation_values_def length_angle_values length_t_diff)

lemma base_with_columns:
  "length angles = length df \<Longrightarrow> length speeds = length df \<Longrightarrow> length rotations = length df \<Longrightarrow>
     map base_of (with_columns df angles speeds rotations) =
       map (\<lambda>s. (traj s, Fin (t s), Fin (x s), Fin (y s))) df"
proof -
  assume l: "length angles = length df" "length speeds = length df" "length rotations = length df"
  have "map base_of (with_columns df angles speeds rotations) =
      map (\<lambda>s. (traj s, Fin (t s), Fin (x s), Fin (y s)))
        (map fst (zip df (zip angles (zip speeds rotations))))"
    by (simp add: with_columns_def base_of_def split_def comp_def)
  also have "map fst (zip df (zip angles (zip speeds rotations))) = df"
    by (rule map_fst_zip) (simp add: l)
  finally show ?thesis .
qed

lemma base_reset_first: "map base_of (reset_first i df) = map base_of df"
  by (induction df) (simp_all add: base_of_def)

lemma base_remove_between:
  "map base_of (fst (remove_between w idxs df)) = map base_of df"
  by (induction idxs arbitrary: df) (simp_all add: base_reset_first)

lemma set_unique: "set (unique ls) = set ls"
  by (induction ls rule: unique.induct) auto

lemma count_by_labels:
  "length (filter (\<lambda>r. f r = i) rows) = length (filter (\<lambda>l. l = i) (map f rows))"
  by (induction rows) simp_all

lemma ktraj_reset_first: "map ktraj (reset_first i df) = map ktraj df"
  by (induction df) simp_all

lemma count_reset_first:
  "length (filter (\<lambda>r. ktraj r = j) (reset_first i df)) = length (filter (\<lambda>r. ktraj r = j) df)"
  by (simp only: count_by_labels [of ktraj] ktraj_reset_first)

lemma remove_between_returns:
  "snd (remove_between w idxs df) = None \<longleftrightarrow>
     (\<forall>i \<in> set idxs. length (filter (\<lambda>r. ktraj r = i) df) \<noteq> 1)"
  by (induction idxs arbitrary: df) (simp_all add: count_reset_first)

lemma ktraj_with_columns:
  "length angles = length df \<Longrightarrow> length speeds = length df \<Longrightarrow> length rotations = length df \<Longrightarrow>
     map ktraj (with_columns df angles speeds rotations) = map traj df"
proof -
  assume l: "length angles = length df" "length speeds = length df" "length rotations = length df"
  have "map ktraj (with_columns df angles speeds rotations) =
      map traj (map fst (zip df (zip angles (zip speeds rotations))))"
    by (simp add: with_columns_def split_def comp_def)
  also have "map fst (zip df (zip angles (zip speeds rotations))) = df"
    by (rule map_fst_zip) (simp add: l)
  finally show ?thesis .
qed

lemma nth_pos_diff:
  "Suc j < length df \<Longrightarrow>
     pos_diff df ! j = (x (df ! Suc j) - x (df ! j), y (df ! Suc j) - y (df ! j))"
  by (simp add: pos_diff_def nth_tl nth_butlast)

lemma nth_t_diff: "Suc j < length df \<Longrightarrow> t_diff df ! j = t (df ! Suc j) - t (df ! j)"
  by (simp add: t_diff_def nth_tl nth_butlast)

lemma nth_angle_values:
  "Suc j < length df \<Longrightarrow>
     angle_values df ! Suc j = Fin (arctan2 (y (df ! Suc j) - y (df ! j)) (x (df ! Suc j) - x (df ! j)))"
  by (simp add: angle_values_def length_pos_diff nth_pos_diff)

lemma nth_speed_values:
  "Suc j < length df \<Longrightarrow>
     speed_values df ! Suc j =
       fdiv (Fin (sqrt ((x (df ! Suc j) - x (df ! j))\<^sup>2 + (y (df ! Suc j) - y (df ! j))\<^sup>2)))
         (t (df ! Suc j) - t (df ! j))"
  by (simp add: speed_values_def length_pos_diff length_t_diff nth_pos_diff nth_t_diff)

lemma nth_rotation_values:
  "Suc j < length df \<Longrightarrow>
     rotation_values df ! Suc j =
       fdiv (rot_of (angle_values df ! Suc j) (angle_values df ! j)) (t (df ! Suc j) - t (df ! j))"
proof -
  assume j: "Suc j < length df"
  then have ne: "df \<noteq> []" by auto
  have la: "length (angle_values df) = length df" by (rule length_angle_values [OF ne])
  show ?thesis
    using j la by (simp add: rotation_values_def length_t_diff nth_t_diff nth_tl nth_butlast)
qed

lemma nth_with_columns:
  assumes "length angles = length df" "length speeds = length df" "length rotations = length df"
    and "j < length df"
  shows "with_columns df angles speeds rotations ! j =
     \<lparr>ktraj = traj (df ! j), kt = Fin (t (df ! j)), kx = Fin (x (df ! j)), ky = Fin (y (df ! j)),
      angle = angles ! j, speed = speeds ! j, rotation = rotations ! j\<rparr>"
  using assms by (simp add: with_columns_def)

lemma length_reset_first: "length (reset_first i df) = length df"
  by (induction df) simp_all

lemma nth_reset_first:
  "j < length df \<Longrightarrow> ktraj (df ! j) \<noteq> i \<or> (\<exists>k < j. ktraj (df ! k) = i) \<Longrightarrow>
     reset_first i df ! j = df ! j"
proof (induction df arbitrary: j)
  case Nil
  then show ?case by simp
next
  case (Cons r rs)
  show ?case
  proof (cases j)
    case 0
    with Cons.prems show ?thesis by simp
  next
    case (Suc j')
    show ?thesis
    proof (cases "ktraj r = i")
      case True
      then show ?thesis by (simp add: Suc)
    next
      case False
      have "j' < length rs" using Cons.prems(1) Suc by simp
      moreover have "ktraj (rs ! j') \<noteq> i \<or> (\<exists>k < j'. ktraj (rs ! k) = i)"
      proof (cases "ktraj (rs ! j') = i")
        case True
        with Cons.prems(2) Suc obtain k where k: "k < Suc j'" "ktraj ((r # rs) ! k) = i" by auto
        with False obtain k' where "k = Suc k'" by (cases k) auto
        with k show ?thesis by auto
      next
        case False
        then show ?thesis by simp
      qed
      ultimately have "reset_first i rs ! j' = rs ! j'" by (rule Cons.IH)
      with False show ?thesis by (simp add: Suc)
    qed
  qed
qed

lemma nth_remove_between:
  "j < length df \<Longrightarrow> \<exists>k < j. ktraj (df ! k) = ktraj (df ! j) \<Longrightarrow>
     fst (remove_between w idxs df) ! j = df ! j"
proof (induction idxs arbitrary: df)
  case Nil
  show ?case by simp
next
  case (Cons i idxs)
  show ?case
  proof (cases "length (filter (\<lambda>r. ktraj r = i) df) = 1")
    case True
    then show ?thesis by simp
  next
    case False
    show ?thesis
    proof (cases w)
    case False
    have "fst (remove_between w idxs df) ! j = df ! j"
      using Cons.prems by (rule Cons.IH)
    with False \<open>length (filter (\<lambda>r. ktraj r = i) df) \<noteq> 1\<close> show ?thesis by simp
  next
    case True
    let ?df = "reset_first i df"
    have keep: "?df ! j = df ! j"
      using Cons.prems by (intro nth_reset_first) auto
    have len: "j < length ?df" using Cons.prems(1) by (simp add: length_reset_first)
    from Cons.prems(2) obtain k where k: "k < j" "ktraj (df ! k) = ktraj (df ! j)" by blast
    have "ktraj (?df ! k) = ktraj (df ! k)"
      using nth_map [of k ?df ktraj] nth_map [of k df ktraj] k(1) Cons.prems(1)
      by (simp add: ktraj_reset_first length_reset_first)
    with k keep have "\<exists>k < j. ktraj (?df ! k) = ktraj (?df ! j)" by auto
    with len have "fst (remove_between w idxs ?df) ! j = ?df ! j" by (rule Cons.IH)
    with keep True \<open>length (filter (\<lambda>r. ktraj r = i) df) \<noteq> 1\<close> show ?thesis by simp
  qed
  qed
qed

text \<open>
  Inside a trajectory the derived columns are what the differencing computes, for both
  behaviours of the assignment in line 277: a row whose predecessor in the table belongs
  to the same trajectory has the angle \<open>arctan2 dy dx\<close> and the speed
  \<open>sqrt (dx\<^sup>2 + dy\<^sup>2) / dt\<close> of the step from its predecessor, and when the row before
  the predecessor belongs to the trajectory too, its rotation is the wrapped difference
  of its angle and its predecessor's, divided by \<open>dt\<close>.
\<close>

lemma calculate_velocity_within_trajectory:
  assumes j: "Suc j < length df" and same: "traj (df ! j) = traj (df ! Suc j)"
  shows "angle (fst (calculate_velocity w df) ! Suc j) =
      Fin (arctan2 (y (df ! Suc j) - y (df ! j)) (x (df ! Suc j) - x (df ! j)))"
    and "speed (fst (calculate_velocity w df) ! Suc j) =
      fdiv (Fin (sqrt ((x (df ! Suc j) - x (df ! j))\<^sup>2 + (y (df ! Suc j) - y (df ! j))\<^sup>2)))
        (t (df ! Suc j) - t (df ! j))"
    and "0 < j \<Longrightarrow> traj (df ! (j - 1)) = traj (df ! j) \<Longrightarrow>
      rotation (fst (calculate_velocity w df) ! Suc j) =
        fdiv (rot_of (angle (fst (calculate_velocity w df) ! Suc j))
                (angle (fst (calculate_velocity w df) ! j)))
          (t (df ! Suc j) - t (df ! j))"
proof -
  let ?frame = "with_columns df (angle_values df) (speed_values df) (rotation_values df)"
  from j have ne: "df \<noteq> []" by auto
  have cv: "calculate_velocity w df = remove_between w (unique (map ktraj ?frame)) ?frame"
    using ne by (simp add: calculate_velocity_def Let_def)
  have lens: "length (angle_values df) = length df" "length (speed_values df) = length df"
    "length (rotation_values df) = length df"
    using ne by (simp_all add: length_angle_values length_speed_values length_rotation_values)
  have lf: "length ?frame = length df" using lens by (simp add: with_columns_def)
  have row: "\<And>k. k < length df \<Longrightarrow> ?frame ! k =
     \<lparr>ktraj = traj (df ! k), kt = Fin (t (df ! k)), kx = Fin (x (df ! k)), ky = Fin (y (df ! k)),
      angle = angle_values df ! k, speed = speed_values df ! k, rotation = rotation_values df ! k\<rparr>"
    by (rule nth_with_columns [OF lens])
  have "\<exists>k < Suc j. ktraj (?frame ! k) = ktraj (?frame ! Suc j)"
    using j same by (intro exI [of _ j]) (simp add: row)
  then have keep: "fst (calculate_velocity w df) ! Suc j = ?frame ! Suc j"
    unfolding cv using j lf by (intro nth_remove_between) simp_all
  show "angle (fst (calculate_velocity w df) ! Suc j) =
      Fin (arctan2 (y (df ! Suc j) - y (df ! j)) (x (df ! Suc j) - x (df ! j)))"
    using j by (simp add: keep row nth_angle_values)
  show "speed (fst (calculate_velocity w df) ! Suc j) =
      fdiv (Fin (sqrt ((x (df ! Suc j) - x (df ! j))\<^sup>2 + (y (df ! Suc j) - y (df ! j))\<^sup>2)))
        (t (df ! Suc j) - t (df ! j))"
    using j by (simp add: keep row nth_speed_values)
  show "rotation (fst (calculate_velocity w df) ! Suc j) =
        fdiv (rot_of (angle (fst (calculate_velocity w df) ! Suc j))
                (angle (fst (calculate_velocity w df) ! j)))
          (t (df ! Suc j) - t (df ! j))"
    if pos: "0 < j" and same': "traj (df ! (j - 1)) = traj (df ! j)"
  proof -
    have "\<exists>k < j. ktraj (?frame ! k) = ktraj (?frame ! j)"
      using j pos same' by (intro exI [of _ "j - 1"]) (simp add: row)
    then have keep': "fst (calculate_velocity w df) ! j = ?frame ! j"
      unfolding cv using j lf by (intro nth_remove_between) simp_all
    show ?thesis
      using j by (simp add: keep keep' row nth_rotation_values)
  qed
qed

text \<open>
  Claim C1 says that the first sample of every trajectory has undefined derived fields
  and that no derived field is computed from a sample of another trajectory. The table
  below holds the trajectories 0 and 1, two samples each. For both behaviours of the
  assignment in line 277, the rotation of the second sample of trajectory 1 (row 3) is
  \<open>\<pi>/2\<close>, and it becomes \<open>\<pi>\<close> when nothing but the last sample of trajectory 0 is moved
  from (2,1) to (3,2): line 271 takes it from the angle between the last sample of
  trajectory 0 and the first of trajectory 1, and the loop of lines 276-277 resets the
  first row of a trajectory only. When the assignment of line 277 reaches a copy
  (\<open>writes_through = False\<close>), the first sample of trajectory 1 (row 2) keeps the angle
  0, the speed 1 and the rotation 0 computed across the two trajectories.
\<close>

theorem calculate_velocity_crosses_trajectories:
  "(\<forall>w. rotation (fst (calculate_velocity w
       [\<lparr>traj = 0, t = 0, x = 1, y = 1\<rparr>, \<lparr>traj = 0, t = 1, x = 2, y = 1\<rparr>,
        \<lparr>traj = 1, t = 2, x = 3, y = 1\<rparr>, \<lparr>traj = 1, t = 3, x = 3, y = 2\<rparr>]) ! 3) = Fin (pi / 2)) \<and>
   (\<forall>w. rotation (fst (calculate_velocity w
       [\<lparr>traj = 0, t = 0, x = 1, y = 1\<rparr>, \<lparr>traj = 0, t = 1, x = 3, y = 2\<rparr>,
        \<lparr>traj = 1, t = 2, x = 3, y = 1\<rparr>, \<lparr>traj = 1, t = 3, x = 3, y = 2\<rparr>]) ! 3) = Fin pi) \<and>
   calculate_velocity False
       [\<lparr>traj = 0, t = 0, x = 1, y = 1\<rparr>, \<lparr>traj = 0, t = 1, x = 2, y = 1\<rparr>,
        \<lparr>traj = 1, t = 2, x = 3, y = 1\<rparr>, \<lparr>traj = 1, t = 3, x = 3, y = 2\<rparr>] =
     ([\<lparr>ktraj = 0, kt = Fin 0, kx = Fin 1, ky = Fin 1, angle = NaN, speed = NaN, rotation = NaN\<rparr>,
       \<lparr>ktraj = 0, kt = Fin 1, kx = Fin 2, ky = Fin 1, angle = Fin 0, speed = Fin 1, rotation = NaN\<rparr>,
       \<lparr>ktraj = 1, kt = Fin 2, kx = Fin 3, ky = Fin 1, angle = Fin 0, speed = Fin 1, rotation = Fin 0\<rparr>,
       \<lparr>ktraj = 1, kt = Fin 3, kx = Fin 3, ky = Fin 2, angle = Fin (pi / 2), speed = Fin 1,
          rotation = Fin (pi / 2)\<rparr>], None)"
  by (simp add: velocity_defs rot_of_quarter rot_of_zero rot_of_half)

text \<open>
  Claim C8 gives \<open>rotation_i = wrap(angle_i - angle_{i-1}) / dt\<close> for every sample but the
  first of a trajectory. With the assignment of line 277 writing through, the result for
  the table of two trajectories is the first equation below: the first sample of
  trajectory 1 (row 2) has no angle, so the formula gives NaN for its second sample
  (row 3), where the program has \<open>\<pi>/2\<close>, computed from the angle across the two
  trajectories. The example of the claim, one trajectory of three samples, comes out as
  the claim says: angle 0 and speed 1, then angle \<open>\<pi>/2\<close>, speed 1 and rotation \<open>\<pi>/2\<close>.
\<close>

theorem calculate_velocity_second_sample_rotation:
  "calculate_velocity True
       [\<lparr>traj = 0, t = 0, x = 1, y = 1\<rparr>, \<lparr>traj = 0, t = 1, x = 2, y = 1\<rparr>,
        \<lparr>traj = 1, t = 2, x = 3, y = 1\<rparr>, \<lparr>traj = 1, t = 3, x = 3, y = 2\<rparr>] =
     ([\<lparr>ktraj = 0, kt = Fin 0, kx = Fin 1, ky = Fin 1, angle = NaN, speed = NaN, rotation = NaN\<rparr>,
       \<lparr>ktraj = 0, kt = Fin 1, kx = Fin 2, ky = Fin 1, angle = Fin 0, speed = Fin 1, rotation = NaN\<rparr>,
       \<lparr>ktraj = 1, kt = Fin 2, kx = Fin 3, ky = Fin 1, angle = NaN, speed = NaN, rotation = NaN\<rparr>,
       \<lparr>ktraj = 1, kt = Fin 3, kx = Fin 3, ky = Fin 2, angle = Fin (pi / 2), speed = Fin 1,
          rotation = Fin (pi / 2)\<rparr>], None) \<and>
   fdiv (rot_of (Fin (pi / 2)) NaN) (3 - 2) = NaN \<and>
   (\<forall>w. calculate_velocity w
       [\<lparr>traj = 0, t = 0, x = 0, y = 0\<rparr>, \<lparr>traj = 0, t = 1, x = 1, y = 0\<rparr>,
        \<lparr>traj = 0, t = 2, x = 1, y = 1\<rparr>] =
     ([\<lparr>ktraj = 0, kt = Fin 0, kx = Fin 0, ky = Fin 0, angle = NaN, speed = NaN, rotation = NaN\<rparr>,
       \<lparr>ktraj = 0, kt = Fin 1, kx = Fin 1, ky = Fin 0, angle = Fin 0, speed = Fin 1, rotation = NaN\<rparr>,
       \<lparr>ktraj = 0, kt = Fin 2, kx = Fin 1, ky = Fin 1, angle = Fin (pi / 2), speed = Fin 1,
          rotation = Fin (pi / 2)\<rparr>], None))"
  by (simp add: velocity_defs rot_of_quarter rot_of_zero)

text \<open>
  Claim C10 is stated for every table. On a table without rows the assignment
  of the column \<open>angle\<close> (an array of length one) makes pandas build the index from the
  array: the frame gains a row with the label 0 and no values, and the loop of line 276
  then raises TypeError on it.
\<close>

theorem calculate_velocity_empty:
  "\<forall>w. calculate_velocity w [] =
     ([\<lparr>ktraj = 0, kt = NaN, kx = NaN, ky = NaN, angle = NaN, speed = NaN, rotation = NaN\<rparr>],
      Some TypeError)"
  by (simp add: calculate_velocity_def missing_row_def)

text \<open>
  Claim C10, amended. For every table with at least one row, \<open>calculate_velocity\<close>
  changes the table only by adding the columns \<open>angle\<close>, \<open>speed\<close> and \<open>rotation\<close>: the
  frame it leaves has the rows of the table, in their order, with the same index value
  and the same \<open>t\<close>, \<open>x\<close> and \<open>y\<close>. When no trajectory has exactly one row the call returns;
  the function has no return statement, so it returns no value.
\<close>

theorem calculate_velocity_frame:
  "df \<noteq> [] \<Longrightarrow>
     map (\<lambda>r. (ktraj r, kt r, kx r, ky r)) (fst (calculate_velocity w df)) =
       map (\<lambda>s. (traj s, Fin (t s), Fin (x s), Fin (y s))) df \<and>
     ((\<forall>i. length (loc df i) \<noteq> 1) \<longrightarrow> snd (calculate_velocity w df) = None)"
proof -
  assume ne: "df \<noteq> []"
  let ?frame = "with_columns df (angle_values df) (speed_values df) (rotation_values df)"
  have cv: "calculate_velocity w df = remove_between w (unique (map ktraj ?frame)) ?frame"
    using ne by (simp add: calculate_velocity_def Let_def)
  have lens: "length (angle_values df) = length df" "length (speed_values df) = length df"
    "length (rotation_values df) = length df"
    using ne by (simp_all add: length_angle_values length_speed_values length_rotation_values)
  have "map base_of (fst (calculate_velocity w df)) = map base_of ?frame"
    by (simp only: cv base_remove_between)
  also have "\<dots> = map (\<lambda>s. (traj s, Fin (t s), Fin (x s), Fin (y s))) df"
    by (rule base_with_columns [OF lens])
  finally have frame: "map (\<lambda>r. (ktraj r, kt r, kx r, ky r)) (fst (calculate_velocity w df)) =
       map (\<lambda>s. (traj s, Fin (t s), Fin (x s), Fin (y s))) df"
    by (simp add: base_of_def [abs_def])
  have labels: "map ktraj ?frame = map traj df" by (rule ktraj_with_columns [OF lens])
  have count: "\<And>i. length (filter (\<lambda>r. ktraj r = i) ?frame) = length (loc df i)"
    by (simp only: count_by_labels [of ktraj] count_by_labels [of traj] labels loc_def)
  have "snd (calculate_velocity w df) = None \<longleftrightarrow> (\<forall>i \<in> set (map traj df). length (loc df i) \<noteq> 1)"
    by (simp only: cv remove_between_returns set_unique labels count)
  also have "\<dots> \<longleftrightarrow> (\<forall>i. length (loc df i) \<noteq> 1)"
  proof
    assume a: "\<forall>i \<in> set (map traj df). length (loc df i) \<noteq> 1"
    show "\<forall>i. length (loc df i) \<noteq> 1"
    proof
      fix i
      show "length (loc df i) \<noteq> 1"
      proof (cases "i \<in> set (map traj df)")
        case True
        with a show ?thesis by blast
      next
        case False
        then have "loc df i = []" by (auto simp: loc_def filter_empty_conv)
        then show ?thesis by simp
      qed
    qed
  next
    assume "\<forall>i. length (loc df i) \<noteq> 1"
    then show "\<forall>i \<in> set (map traj df). length (loc df i) \<noteq> 1" by blast
  qed
  finally have returns: "snd (calculate_velocity w df) = None \<longleftrightarrow> (\<forall>i. length (loc df i) \<noteq> 1)" .
  from frame returns show ?thesis by blast
qed

theorem calculate_velocity_frame_witness:
  "[\<lparr>traj = 0, t = 0, x = 1, y = 1\<rparr>, \<lparr>traj = 0, t = 1, x = 2, y = 1\<rparr>] \<noteq> [] \<and>
   map (\<lambda>r. (ktraj r, kt r, kx r, ky r))
     (fst (calculate_velocity True [\<lparr>traj = 0, t = 0, x = 1, y = 1\<rparr>, \<lparr>traj = 0, t = 1, x = 2, y = 1\<rparr>])) =
     [(0, Fin 0, Fin 1, Fin 1), (0, Fin 1, Fin 2, Fin 1)] \<and>
   snd (calculate_velocity True [\<lparr>traj = 0, t = 0, x = 1, y = 1\<rparr>, \<lparr>traj = 0, t = 1, x = 2, y = 1\<rparr>]) = None"
  using calculate_velocity_frame
    [of "[\<lparr>traj = 0, t = 0, x = 1, y = 1\<rparr>, \<lparr>traj = 0, t = 1, x = 2, y = 1\<rparr>]" True]
  by (simp add: loc_def)

text \<open>
  A trajectory of one row is outside the amended claim: \<open>df.loc[i]\<close> is then the row
  itself, \<open>df.loc[i].iloc[0]\<close> a float, and the assignment of line 277 raises TypeError,
  where the docstring has the function return \<open>None\<close> and the loop is meant to reset the
  first row of the trajectory.
\<close>

lemma calculate_velocity_single_row:
  "snd (calculate_velocity w [\<lparr>traj = 0, t = 0, x = 1, y = 1\<rparr>]) = Some TypeError"
  by (simp add: velocity_defs)

section \<open>The batch\<close>

lemma run_groups_append:
  "run_groups w ml ts te files before written = (written1, Finished) \<Longrightarrow>
     run_groups w ml ts te files (before @ groups) written = run_groups w ml ts te files groups written1"
proof (induction before arbitrary: written)
  case Nil
  then show ?case by simp
next
  case (Cons g before)
  obtain c d where g: "g = (c, d)" by (cases g)
  obtain written' ending where pg: "process_group w ml ts te files c d written = (written', ending)"
    by (cases "process_group w ml ts te files c d written")
  show ?case
  proof (cases ending)
    case Finished
    with Cons.prems pg g have "run_groups w ml ts te files before written' = (written1, Finished)"
      by simp
    from Cons.IH [OF this] show ?thesis using pg g Finished by simp
  next
    case (Aborted e)
    with Cons.prems pg g show ?thesis by simp
  next
    case Unmodelled
    with Cons.prems pg g show ?thesis by simp
  qed
qed

lemma process_group_extends:
  "process_group w ml ts te files c d written = (written', ending) \<Longrightarrow>
     \<exists>new. written' = written @ new"
  by (auto simp: process_group_def split: option.splits sum.splits filter_result.splits
        stitch_result.splits if_splits prod.splits)

lemma example_group_0:
  "process_group w 2 0 0 example_files 2 0 written = (written, Aborted (AssertionError Len_index_gt_0))"
  by (simp add: example_files_def process_group_def cond_beenum_def combine_traj_files_def
      adjust_def in_int64_def filter_traj_defs calculate_distances_def two_bee_times_def
      loc_mask_def)

lemma example_group_1:
  "\<exists>frame. process_group w 2 0 0 example_files 2 1 written =
     (written @ [Distance_csv 2 1 [(1, 1), (2, 1)], Trajectory_csv 2 1 frame], Finished)"
  by (simp add: example_files_def process_group_def cond_beenum_def combine_traj_files_def
      adjust_def in_int64_def filter_traj_defs calculate_distances_def two_bee_times_def
      loc_mask_def loc_t_def
      euclid_def calculate_velocity_def with_columns_def angle_values_def speed_values_def
      rotation_values_def pos_diff_def t_diff_def Let_def)

text \<open>
  Claim C9 says that a group whose processing fails is skipped and the groups after it
  are attempted. \<open>process_trajectories\<close> has no exception handler: in the catalog
  \<open>example_files\<close> the group of date 0 fails (the assertion of line 295: no timestamp
  is shared), the batch ends with that error and nothing is written, while the group of
  date 1, processed from the same state, writes its two files (the distance is 1 at both
  shared timestamps).
\<close>

theorem process_trajectories_stops_at_failure:
  "\<forall>w. process_trajectories w 2 0 0 [2] [0, 1] example_files =
          ([], Aborted (AssertionError Len_index_gt_0)) \<and>
        (\<exists>frame. process_group w 2 0 0 example_files 2 1 [] =
          ([Distance_csv 2 1 [(1, 1), (2, 1)], Trajectory_csv 2 1 frame], Finished))"
  using example_group_1 [of _ "[]"]
  by (simp add: process_trajectories_def example_group_0)

text \<open>
  Claim C9, amended. When the processing of a group raises an error, the error leaves
  both loops: \<open>process_trajectories\<close> ends with that error, whatever groups come after the
  failing one (none of them is attempted), and the files written before the failure
  stay written.
\<close>

theorem process_trajectories_aborts:
  assumes "List.product conditions dates = before @ (c, d) # after"
    and "run_groups w ml ts te files before [] = (written1, Finished)"
    and "process_group w ml ts te files c d written1 = (written2, Aborted e)"
  shows "process_trajectories w ml ts te conditions dates files = (written2, Aborted e) \<and>
    (\<exists>new. written2 = written1 @ new)"
proof -
  have "run_groups w ml ts te files (before @ (c, d) # after) [] =
      run_groups w ml ts te files ((c, d) # after) written1"
    by (rule run_groups_append [OF assms(2)])
  also have "\<dots> = (written2, Aborted e)" using assms(3) by simp
  finally have "process_trajectories w ml ts te conditions dates files = (written2, Aborted e)"
    by (simp add: process_trajectories_def assms(1))
  then show ?thesis using process_group_extends [OF assms(3)] by blast
qed

theorem process_trajectories_aborts_witness:
  "\<exists>frame. process_trajectories True 2 0 0 [2] [1, 0] example_files =
     ([Distance_csv 2 1 [(1, 1), (2, 1)], Trajectory_csv 2 1 frame],
      Aborted (AssertionError Len_index_gt_0))"
proof -
  define ddf :: "(real \<times> real) list" where "ddf = [(1, 1), (2, 1)]"
  from example_group_1 [of True "[]"] obtain frame where
    g1: "process_group True 2 0 0 example_files 2 1 [] =
      ([Distance_csv 2 1 ddf, Trajectory_csv 2 1 frame], Finished)"
    unfolding ddf_def by auto
  have h1: "List.product [2::int] [1::nat, 0] = [(2, 1)] @ (2, 0) # []" by simp
  have h2: "run_groups True 2 0 0 example_files [(2, 1)] [] =
      ([Distance_csv 2 1 ddf, Trajectory_csv 2 1 frame], Finished)"
    using g1 by simp
  have h3: "process_group True 2 0 0 example_files 2 0 [Distance_csv 2 1 ddf, Trajectory_csv 2 1 frame] =
      ([Distance_csv 2 1 ddf, Trajectory_csv 2 1 frame], Aborted (AssertionError Len_index_gt_0))"
    by (rule example_group_0)
  from process_trajectories_aborts [OF h1 h2 h3] show ?thesis unfolding ddf_def by blast
qed

end
